theory Spec2Isabelle
  imports Main
begin

section \<open>The Result class of gof/result.py\<close>

text \<open>
  A shallow embedding of \<^verbatim>\<open>src/gof/result.py\<close>. Python objects are known by their
  identity (what \<^verbatim>\<open>id()\<close> returns and \<^verbatim>\<open>is\<close> compares), so a reference is a
  number. The value held in a data slot is either the singleton \<^verbatim>\<open>None\<close> or a
  reference to a host object; \<^verbatim>\<open>is\<close> on two such values is equality of the
  references.
\<close>

type_synonym ref = nat

datatype pyval = PyNone | PyRef ref

text \<open>The three state keywords (the classes Empty, Allocated, Computed).\<close>

datatype rstate = Empty | Allocated | Computed

text \<open>
  The exceptions that the module raises or lets through, each with its message:
  \<^verbatim>\<open>ValueError\<close> and \<^verbatim>\<open>TypeError\<close> are raised by the setters and by
  \<^verbatim>\<open>list.index\<close>, \<^verbatim>\<open>AbstractFunctionError\<close> (imported from utils) by the abstract
  methods, \<^verbatim>\<open>NameError\<close> is what Python raises when a global name is not bound.
  \<^verbatim>\<open>HostError\<close> stands for any exception of code that is not the module's and that
  the module calls on a datum: its \<^verbatim>\<open>__str__\<close>, \<^verbatim>\<open>copy.copy\<close>.
\<close>

datatype error =
    ValueError string
  | TypeError string
  | AbstractFunctionError
  | NameError string
  | HostError string

text \<open>
  The owner of a Result is an Op, a class that is not part of this module. The module
  reads two things of it: its class (printed with \<^verbatim>\<open>%s\<close>) and the list
  \<^verbatim>\<open>outputs\<close>. The environment gives, for every owner reference, the Op object as
  it is when the module reads it, and what \<^verbatim>\<open>str()\<close> of a datum does: it returns a
  string or raises, as the datum's own \<^verbatim>\<open>__str__\<close> decides.
\<close>

record op_obj =
  op_class :: string
  op_outputs :: "ref list"

record env =
  ops :: "ref \<Rightarrow> op_obj"
  host_str :: "pyval \<Rightarrow> error + string"

text \<open>
  The slots of a Result: \<^verbatim>\<open>_role\<close>, \<^verbatim>\<open>_data\<close> (a list of one element, of which
  only element 0 is ever read or written), \<^verbatim>\<open>state\<close>, \<^verbatim>\<open>_name\<close>,
  \<^verbatim>\<open>_hash_id\<close>; \<open>obj_id\<close> is the identity of the instance.
\<close>

record result =
  obj_id :: ref
  role_slot :: "(ref \<times> int) option"
  data_slot :: pyval
  state :: rstate
  name_slot :: "string option"
  hash_id :: int

text \<open>What a caller may pass as a name: None, a str, or an object of another type.\<close>

datatype name_arg = NameNone | NameStr string | NameOther

subsection \<open>Python stdlib compatibility\<close>

definition eq_result :: "result \<Rightarrow> result \<Rightarrow> bool" where
  "eq_result self other = (obj_id self = obj_id other)"

definition ne_result :: "result \<Rightarrow> result \<Rightarrow> bool" where
  "ne_result self other = (obj_id self \<noteq> obj_id other)"

definition cmp_result :: "result \<Rightarrow> result \<Rightarrow> int" where
  "cmp_result self other =
     (if obj_id self < obj_id other then - 1 else if obj_id self = obj_id other then 0 else 1)"

definition hash_result :: "result \<Rightarrow> int" where
  "hash_result self = hash_id self"

definition desc :: "result \<Rightarrow> ref" where
  "desc self = obj_id self"

subsection \<open>role, owner, index\<close>

definition get_role :: "result \<Rightarrow> (ref \<times> int) option" where
  "get_role self = role_slot self"

definition get_owner :: "result \<Rightarrow> ref option" where
  "get_owner self = (case role_slot self of None \<Rightarrow> None | Some r \<Rightarrow> Some (fst r))"


subsection \<open>name\<close>

text \<open>Python's \<^verbatim>\<open>list.index\<close>: the first position holding the value, if any.\<close>

fun list_index :: "ref list \<Rightarrow> ref \<Rightarrow> nat option" where
  "list_index [] x = None"
| "list_index (y # ys) x =
     (if y = x then Some 0
      else (case list_index ys x of None \<Rightarrow> None | Some i \<Rightarrow> Some (Suc i)))"

text \<open>The format \<^verbatim>\<open>%i\<close> of a non-negative integer: its decimal digits.\<close>

definition digit :: "nat \<Rightarrow> char" where
  "digit d = ''0123456789'' ! d"

fun str_nat :: "nat \<Rightarrow> string" where
  "str_nat n = (if n < 10 then [digit n] else str_nat (n div 10) @ [digit (n mod 10)])"

declare str_nat.simps [simp del]

text \<open>Reading decimal digits back, to say what \<open>str_nat\<close> writes.\<close>

definition digit_value :: "char \<Rightarrow> nat" where
  "digit_value c = of_char c - 48"

definition nat_of_digits :: "string \<Rightarrow> nat" where
  "nat_of_digits cs = foldl (\<lambda>a c. 10 * a + digit_value c) 0 cs"

text \<open>The truth value of a name: None and the empty string are false.\<close>

definition truthy :: "string option \<Rightarrow> bool" where
  "truthy name = (case name of None \<Rightarrow> False | Some s \<Rightarrow> s \<noteq> [])"

text \<open>
  \<^verbatim>\<open>__get_name\<close>: the stored name when it is truthy (a non-empty string); else, when
  the role is set, the owner's class and the position of this Result in the owner's
  outputs (\<^verbatim>\<open>list.index\<close> raises ValueError when it is not there); else None.
\<close>

definition get_name :: "env \<Rightarrow> result \<Rightarrow> error + string option" where
  "get_name e self =
     (if truthy (name_slot self) then Inr (name_slot self)
      else (case role_slot self of
              Some r \<Rightarrow>
                (case list_index (op_outputs (ops e (fst r))) (obj_id self) of
                   None \<Rightarrow> Inl (ValueError ''list.index(x): x not in list'')
                 | Some i \<Rightarrow> Inr (Some (op_class (ops e (fst r)) @ ''.'' @ str_nat i)))
            | None \<Rightarrow> Inr None))"

definition set_name :: "name_arg \<Rightarrow> result \<Rightarrow> error option \<times> result" where
  "set_name name self =
     (case name of
        NameOther \<Rightarrow> (Some (TypeError ''Name is expected to be a string, or None.''), self)
      | NameNone \<Rightarrow> (None, self\<lparr>name_slot := None\<rparr>)
      | NameStr s \<Rightarrow> (None, self\<lparr>name_slot := Some s\<rparr>))"

subsection \<open>String representation\<close>

definition str_result :: "env \<Rightarrow> result \<Rightarrow> error + string" where
  "str_result e self =
     (case get_name e self of
        Inl err \<Rightarrow> Inl err
      | Inr name \<Rightarrow>
          (if truthy name then
             (if state self = Computed
              then (case host_str e (data_slot self) of
                      Inl err \<Rightarrow> Inl err
                    | Inr d \<Rightarrow> Inr (case_option [] id name @ '':'' @ d))
              else Inr (case_option [] id name))
           else if state self = Computed then host_str e (data_slot self)
           else Inr ''<?>''))"

definition repr_result :: "env \<Rightarrow> result \<Rightarrow> error + string" where
  "repr_result e self =
     (case get_name e self of
        Inl err \<Rightarrow> Inl err
      | Inr name \<Rightarrow> (if truthy name then Inr (case_option [] id name) else Inr ''<?>''))"

subsection \<open>The role setter\<close>

text \<open>
  \<^verbatim>\<open>__set_role\<close>. The messages are built with \<^verbatim>\<open>% self\<close>, which calls
  \<^verbatim>\<open>__str__\<close>; when that raises, its exception is the one that leaves the setter.
  The owners are compared with \<^verbatim>\<open>is not\<close>, the indices with \<^verbatim>\<open>!=\<close>.
\<close>

definition raise_fmt :: "env \<Rightarrow> result \<Rightarrow> string \<Rightarrow> error" where
  "raise_fmt e self tail =
     (case str_result e self of
        Inl err \<Rightarrow> err
      | Inr s \<Rightarrow> ValueError (''Result '' @ s @ tail))"

definition set_role :: "env \<Rightarrow> ref \<times> int \<Rightarrow> result \<Rightarrow> error option \<times> result" where
  "set_role e role self =
     (case role_slot self of
        Some old \<Rightarrow>
          (if fst old \<noteq> fst role then
             (Some (raise_fmt e self '' already has an owner.''), self)
           else if snd old \<noteq> snd role then
             (Some (raise_fmt e self '' was already mapped to a different index.''), self)
           else (None, self))
      | None \<Rightarrow> (None, self\<lparr>role_slot := Some role\<rparr>))"

subsection \<open>data\<close>

definition get_data :: "result \<Rightarrow> pyval" where
  "get_data self = data_slot self"

text \<open>
  \<^verbatim>\<open>Result.filter\<close> raises AbstractFunctionError. A subclass may override it; what
  its filter can see and change besides the datum is the hook state \<open>'s\<close> (a test
  double counts its calls there), which it returns with its result or its exception.
\<close>

type_synonym 's filter_hook = "result \<Rightarrow> 's \<Rightarrow> pyval \<Rightarrow> (error + pyval) \<times> 's"

definition Result_filter :: "'s filter_hook" where
  "Result_filter self s data = (Inl AbstractFunctionError, s)"

text \<open>
  \<^verbatim>\<open>__set_data\<close>: nothing when the value is the object already held; None clears
  the slot and sets Empty; any other value goes through the filter, an
  AbstractFunctionError of the filter is swallowed and the raw value stored, any other
  exception of the filter leaves the setter before the slot is written.
\<close>

definition set_data :: "'s filter_hook \<Rightarrow> pyval \<Rightarrow> result \<Rightarrow> 's \<Rightarrow> error option \<times> result \<times> 's" where
  "set_data flt data self s =
     (if data = data_slot self then (None, self, s)
      else if data = PyNone then (None, self\<lparr>data_slot := PyNone, state := Empty\<rparr>, s)
      else (case flt self s data of
              (Inr d, s') \<Rightarrow> (None, self\<lparr>data_slot := d, state := Computed\<rparr>, s')
            | (Inl AbstractFunctionError, s') \<Rightarrow>
                (None, self\<lparr>data_slot := data, state := Computed\<rparr>, s')
            | (Inl err, s') \<Rightarrow> (Some err, self, s')))"

text \<open>\<^verbatim>\<open>state\<close> is a plain slot: any holder of the Result may assign it.\<close>

definition set_state :: "rstate \<Rightarrow> result \<Rightarrow> result" where
  "set_state st self = self\<lparr>state := st\<rparr>"

subsection \<open>Construction\<close>

text \<open>
  \<^verbatim>\<open>__init__(role, name)\<close>. The identity of the new object and the value that
  \<^verbatim>\<open>utils.hashgen()\<close> returns (utils is not part of this module) are parameters.
  The role, when given, goes through the role setter on an object whose role is None;
  the name goes through the name setter, whose TypeError ends the construction. A slot
  that is not assigned yet holds a placeholder, which nothing reads.
\<close>

definition Result_init ::
  "env \<Rightarrow> ref \<Rightarrow> int \<Rightarrow> (ref \<times> int) option \<Rightarrow> name_arg \<Rightarrow> error + result" where
  "Result_init e new_id hashgen role name =
     (let self0 = \<lparr>obj_id = new_id, role_slot = None, data_slot = PyNone, state = Empty,
                   name_slot = None, hash_id = 0\<rparr>;
          (err1, self1) = (case role of None \<Rightarrow> (None, self0) | Some r \<Rightarrow> set_role e r self0)
      in (case err1 of
            Some err \<Rightarrow> Inl err
          | None \<Rightarrow>
              (case set_name name (self1\<lparr>data_slot := PyNone, state := Empty\<rparr>) of
                 (Some err, self2) \<Rightarrow> Inl err
               | (None, self2) \<Rightarrow> Inr (self2\<lparr>hash_id := hashgen\<rparr>))))"

subsection \<open>C code generators and the other abstract methods of Result\<close>

definition c_is_simple :: "result \<Rightarrow> bool" where
  "c_is_simple self = False"

definition Result_c_literal :: "result \<Rightarrow> error + string" where
  "Result_c_literal self = Inl AbstractFunctionError"

definition Result_c_declare :: "result \<Rightarrow> string \<Rightarrow> 'sub \<Rightarrow> error + string" where
  "Result_c_declare self name sub = Inl AbstractFunctionError"

definition Result_c_extract :: "result \<Rightarrow> string \<Rightarrow> 'sub \<Rightarrow> error + string" where
  "Result_c_extract self name sub = Inl AbstractFunctionError"

definition Result_c_cleanup :: "result \<Rightarrow> string \<Rightarrow> 'sub \<Rightarrow> error + string" where
  "Result_c_cleanup self name sub = Inl AbstractFunctionError"

definition Result_c_sync :: "result \<Rightarrow> string \<Rightarrow> 'sub \<Rightarrow> error + string" where
  "Result_c_sync self name sub = Inl AbstractFunctionError"

definition Result_c_compile_args :: "result \<Rightarrow> error + string list" where
  "Result_c_compile_args self = Inl AbstractFunctionError"

definition Result_c_headers :: "result \<Rightarrow> error + string list" where
  "Result_c_headers self = Inl AbstractFunctionError"

definition Result_c_libraries :: "result \<Rightarrow> error + string list" where
  "Result_c_libraries self = Inl AbstractFunctionError"

definition Result_c_support_code :: "result \<Rightarrow> error + string" where
  "Result_c_support_code self = Inl AbstractFunctionError"

text \<open>
  \<^verbatim>\<open>same_properties\<close> says \<^verbatim>\<open>raise AbstractFunction()\<close>. The module binds no
  global of that name (it imports \<^verbatim>\<open>AbstractFunctionError\<close> only), so evaluating
  the name raises NameError before anything is constructed.
\<close>

definition Result_same_properties :: "result \<Rightarrow> result \<Rightarrow> error + bool" where
  "Result_same_properties self other =
     Inl (NameError ''global name 'AbstractFunction' is not defined'')"

definition Result_copy :: "result \<Rightarrow> error + result" where
  "Result_copy self = Inl AbstractFunctionError"

subsection \<open>PythonResult\<close>

text \<open>
  PythonResult overrides the four code generators, \<^verbatim>\<open>same_properties\<close> and
  \<^verbatim>\<open>__copy__\<close>; everything else, the filter included, is Result's. Each generator
  returns its template with \<^verbatim>\<open>%(name)s\<close> filled in: the text starts with a line
  break, every line is indented by eight blanks, and eight blanks follow the last
  line break.
\<close>

definition nl :: string where
  "nl = [CHR 0x0A]"

definition indent :: string where
  "indent = ''        ''"

definition PythonResult_c_declare :: "result \<Rightarrow> string \<Rightarrow> 'sub \<Rightarrow> error + string" where
  "PythonResult_c_declare self name sub =
     Inr (nl @ indent @ ''PyObject* '' @ name @ '';'' @ nl @ indent)"

definition PythonResult_c_extract :: "result \<Rightarrow> string \<Rightarrow> 'sub \<Rightarrow> error + string" where
  "PythonResult_c_extract self name sub =
     Inr (nl @ indent @ ''Py_XINCREF(py_'' @ name @ '');'' @ nl @
          indent @ name @ '' = py_'' @ name @ '';'' @ nl @ indent)"

definition PythonResult_c_cleanup :: "result \<Rightarrow> string \<Rightarrow> 'sub \<Rightarrow> error + string" where
  "PythonResult_c_cleanup self name sub =
     Inr (nl @ indent @ ''Py_XDECREF('' @ name @ '');'' @ nl @ indent)"

definition PythonResult_c_sync :: "result \<Rightarrow> string \<Rightarrow> 'sub \<Rightarrow> error + string" where
  "PythonResult_c_sync self name sub =
     Inr (nl @ indent @ ''Py_XDECREF(py_'' @ name @ '');'' @ nl @
          indent @ ''py_'' @ name @ '' = '' @ name @ '';'' @ nl @
          indent @ ''Py_XINCREF(py_'' @ name @ '');'' @ nl @ indent)"

definition PythonResult_same_properties :: "result \<Rightarrow> result \<Rightarrow> error + bool" where
  "PythonResult_same_properties self other = Inr False"

subsection \<open>Copying\<close>

text \<open>
  \<^verbatim>\<open>PythonResult.__copy__\<close> calls \<^verbatim>\<open>copy.copy\<close> of the standard library on the
  datum. What that call does is the datum's business (it may run the datum's own
  \<^verbatim>\<open>__copy__\<close>, allocate, or raise), so it is a parameter: a function of the host
  state \<open>'h\<close> and the datum that returns the copy or an exception, and the host state
  it leaves.
\<close>

type_synonym 'h copy_hook = "'h \<Rightarrow> pyval \<Rightarrow> (error + pyval) \<times> 'h"

text \<open>
  \<^verbatim>\<open>PythonResult.__copy__\<close>: \<^verbatim>\<open>rval = PythonResult(None, self.name)\<close> reads the name
  through the getter (which may raise) and constructs the new object; then
  \<^verbatim>\<open>copy.copy(self.data)\<close> runs, and its result goes through the data setter of the
  new object, whose filter is Result's. The identity of the new object and the value of
  \<^verbatim>\<open>utils.hashgen()\<close> are parameters, as for the constructor.
\<close>

definition name_of_getter :: "string option \<Rightarrow> name_arg" where
  "name_of_getter n = (case n of None \<Rightarrow> NameNone | Some s \<Rightarrow> NameStr s)"

definition PythonResult_copy ::
  "env \<Rightarrow> 'h copy_hook \<Rightarrow> 'h \<Rightarrow> ref \<Rightarrow> int \<Rightarrow> result \<Rightarrow> (error + result) \<times> 'h" where
  "PythonResult_copy e copy_copy h new_id hashgen self =
     (case get_name e self of
        Inl err \<Rightarrow> (Inl err, h)
      | Inr n \<Rightarrow>
          (case Result_init e new_id hashgen None (name_of_getter n) of
             Inl err \<Rightarrow> (Inl err, h)
           | Inr rval \<Rightarrow>
               (case copy_copy h (get_data self) of
                  (Inl err, h') \<Rightarrow> (Inl err, h')
                | (Inr d, h') \<Rightarrow>
                    (case set_data Result_filter d rval () of
                       (Some err, _) \<Rightarrow> (Inl err, h')
                     | (None, rval', _) \<Rightarrow> (Inr rval', h')))))"

text \<open>\<^verbatim>\<open>python_result(data, **kwargs)\<close>, the keywords being role and name.\<close>

definition python_result ::
  "env \<Rightarrow> ref \<Rightarrow> int \<Rightarrow> pyval \<Rightarrow> (ref \<times> int) option \<Rightarrow> name_arg \<Rightarrow> error + result" where
  "python_result e new_id hashgen data role name =
     (case Result_init e new_id hashgen role name of
        Inl err \<Rightarrow> Inl err
      | Inr rval \<Rightarrow>
          (case set_data Result_filter data rval () of
             (Some err, _) \<Rightarrow> Inl err
           | (None, rval', _) \<Rightarrow> Inr rval'))"

subsection \<open>The emitted C code\<close>

text \<open>
  The code that PythonResult emits is made of four kinds of statement: the declaration
  of a \<^verbatim>\<open>PyObject*\<close> variable, \<^verbatim>\<open>Py_XINCREF\<close> and \<^verbatim>\<open>Py_XDECREF\<close> of a
  variable, and the assignment of one variable to another. \<open>emit\<close> writes a list of
  statements in the layout of the templates; the four lists below are the statements of
  the four templates.
\<close>

datatype cstmt = Declare string | XIncref string | XDecref string | Assign string string

fun emit_stmt :: "cstmt \<Rightarrow> string" where
  "emit_stmt (Declare v) = ''PyObject* '' @ v @ '';''"
| "emit_stmt (XIncref v) = ''Py_XINCREF('' @ v @ '');''"
| "emit_stmt (XDecref v) = ''Py_XDECREF('' @ v @ '');''"
| "emit_stmt (Assign x y) = x @ '' = '' @ y @ '';''"

definition emit :: "cstmt list \<Rightarrow> string" where
  "emit ss = nl @ concat (map (\<lambda>s. indent @ emit_stmt s @ nl) ss) @ indent"

definition py_var :: "string \<Rightarrow> string" where
  "py_var name = ''py_'' @ name"

definition declare_stmts :: "string \<Rightarrow> cstmt list" where
  "declare_stmts name = [Declare name]"

definition extract_stmts :: "string \<Rightarrow> cstmt list" where
  "extract_stmts name = [XIncref (py_var name), Assign name (py_var name)]"

definition cleanup_stmts :: "string \<Rightarrow> cstmt list" where
  "cleanup_stmts name = [XDecref name]"

definition sync_stmts :: "string \<Rightarrow> cstmt list" where
  "sync_stmts name = [XDecref (py_var name), Assign (py_var name) name, XIncref (py_var name)]"

text \<open>
  The host as the emitted code sees it: the reference count of every object, and the
  C variables in scope. A variable is declared and not yet assigned, or holds a
  pointer (NULL or an object). An object whose count is 0 has been released.
  \<^verbatim>\<open>Py_XINCREF\<close> and \<^verbatim>\<open>Py_XDECREF\<close> do nothing on NULL and otherwise add and
  take one reference; running a statement fails (None) where C gives no meaning to it:
  reading a variable that is not in scope or not assigned, and counting a reference of
  an object that has been released (a double release, a use after release).
\<close>

datatype cval = Uninit | Ptr "ref option"

record host =
  refcnt :: "ref \<Rightarrow> nat"
  vars :: "string \<rightharpoonup> cval"

definition incref :: "ref option \<Rightarrow> host \<Rightarrow> host option" where
  "incref p h =
     (case p of
        None \<Rightarrow> Some h
      | Some r \<Rightarrow> (if refcnt h r = 0 then None
                   else Some (h\<lparr>refcnt := (refcnt h)(r := refcnt h r + 1)\<rparr>)))"

definition decref :: "ref option \<Rightarrow> host \<Rightarrow> host option" where
  "decref p h =
     (case p of
        None \<Rightarrow> Some h
      | Some r \<Rightarrow> (if refcnt h r = 0 then None
                   else Some (h\<lparr>refcnt := (refcnt h)(r := refcnt h r - 1)\<rparr>)))"

fun exec_stmt :: "cstmt \<Rightarrow> host \<Rightarrow> host option" where
  "exec_stmt (Declare v) h = Some (h\<lparr>vars := (vars h)(v \<mapsto> Uninit)\<rparr>)"
| "exec_stmt (XIncref v) h =
     (case vars h v of Some (Ptr p) \<Rightarrow> incref p h | _ \<Rightarrow> None)"
| "exec_stmt (XDecref v) h =
     (case vars h v of Some (Ptr p) \<Rightarrow> decref p h | _ \<Rightarrow> None)"
| "exec_stmt (Assign x y) h =
     (case (vars h x, vars h y) of
        (Some _, Some (Ptr p)) \<Rightarrow> Some (h\<lparr>vars := (vars h)(x \<mapsto> Ptr p)\<rparr>)
      | _ \<Rightarrow> None)"

fun exec :: "cstmt list \<Rightarrow> host \<Rightarrow> host option" where
  "exec [] h = Some h"
| "exec (c # cs) h = (case exec_stmt c h of None \<Rightarrow> None | Some h' \<Rightarrow> exec cs h')"

subsection \<open>Sequences of assignments\<close>

text \<open>
  What a holder of a Result can do to it after construction: assign the role, the data,
  the state or the name. An assignment that raises leaves the Result as the setter left
  it, and the next assignment goes on from there.
\<close>

datatype action = SetRole "ref \<times> int" | SetData pyval | SetState rstate | SetName name_arg

fun apply_action :: "env \<Rightarrow> 's filter_hook \<Rightarrow> action \<Rightarrow> result \<times> 's \<Rightarrow> result \<times> 's" where
  "apply_action e flt (SetRole r) (self, s) = (snd (set_role e r self), s)"
| "apply_action e flt (SetData d) (self, s) = snd (set_data flt d self s)"
| "apply_action e flt (SetState st) (self, s) = (set_state st self, s)"
| "apply_action e flt (SetName n) (self, s) = (snd (set_name n self), s)"

fun apply_actions :: "env \<Rightarrow> 's filter_hook \<Rightarrow> action list \<Rightarrow> result \<times> 's \<Rightarrow> result \<times> 's" where
  "apply_actions e flt [] st = st"
| "apply_actions e flt (a # as) st = apply_actions e flt as (apply_action e flt a st)"

subsection \<open>Example objects\<close>

text \<open>
  An environment with two Ops: Op 5 of class Add, whose outputs hold the Result 1, and
  every other reference an Op of class Mul without outputs; every datum prints as
  \<^verbatim>\<open>obj\<close>. Result 1 as constructed without role and name, and with the role (5, 2);
  a second Result constructed the same way; a named one; one whose owner does not list
  it; a filter that counts its calls in the hook state and wraps the datum.
\<close>

definition example_env :: env where
  "example_env = \<lparr>ops = (\<lambda>r. if r = 5 then \<lparr>op_class = ''Add'', op_outputs = [1]\<rparr>
                                 else \<lparr>op_class = ''Mul'', op_outputs = []\<rparr>),
                   host_str = (\<lambda>v. Inr ''obj'')\<rparr>"

definition fresh_result :: result where
  "fresh_result = \<lparr>obj_id = 1, role_slot = None, data_slot = PyNone, state = Empty,
                    name_slot = None, hash_id = 7\<rparr>"

definition bound_result :: result where
  "bound_result = \<lparr>obj_id = 1, role_slot = Some (5, 2), data_slot = PyNone, state = Empty,
                    name_slot = None, hash_id = 7\<rparr>"

definition other_result :: result where
  "other_result = fresh_result\<lparr>obj_id := 2, hash_id := 7\<rparr>"

definition named_result :: result where
  "named_result = bound_result\<lparr>name_slot := Some ''x''\<rparr>"

definition stray_result :: result where
  "stray_result = bound_result\<lparr>role_slot := Some (6, 0)\<rparr>"

definition counting_filter :: "nat filter_hook" where
  "counting_filter self calls data =
     (case data of PyRef r \<Rightarrow> (Inr (PyRef (r + 100)), Suc calls)
                 | PyNone \<Rightarrow> (Inl (TypeError ''no datum''), Suc calls))"

text \<open>
  The same environment with data whose \<^verbatim>\<open>__str__\<close> raises, and the named Result
  holding such a datum as its owner's output; a host in which \<^verbatim>\<open>py_x\<close> is the one
  reference to object 0.
\<close>

definition unprintable_env :: env where
  "unprintable_env = example_env\<lparr>host_str := (\<lambda>v. Inl (HostError ''__str__''))\<rparr>"

definition computed_result :: result where
  "computed_result = named_result\<lparr>data_slot := PyRef 3, state := Computed\<rparr>"

definition example_host :: host where
  "example_host = \<lparr>refcnt = (\<lambda>r. if r = 0 then 1 else 0),
                    vars = [''py_x'' \<mapsto> Ptr (Some 0)]\<rparr>"

section \<open>Properties\<close>

subsection \<open>Construction\<close>

lemma Result_init_eq:
  "Result_init e i h role name =
     (case name of
        NameOther \<Rightarrow> Inl (TypeError ''Name is expected to be a string, or None.'')
      | NameNone \<Rightarrow> Inr \<lparr>obj_id = i, role_slot = role, data_slot = PyNone, state = Empty,
                         name_slot = None, hash_id = h\<rparr>
      | NameStr n \<Rightarrow> Inr \<lparr>obj_id = i, role_slot = role, data_slot = PyNone, state = Empty,
                          name_slot = Some n, hash_id = h\<rparr>)"
  by (cases role; cases name) (simp_all add: Result_init_def set_role_def set_name_def)

lemma init_fresh: "Result_init example_env 1 7 None NameNone = Inr fresh_result"
  by (simp add: Result_init_def set_name_def fresh_result_def)

lemma init_bound: "Result_init example_env 1 7 (Some (5, 2)) NameNone = Inr bound_result"
  by (simp add: Result_init_def set_name_def set_role_def bound_result_def)

subsection \<open>The data setter\<close>

text \<open>
  Claim C1, as the code has it. Assigning None to data never raises, never calls the
  filter, and leaves a data read of None. The state becomes Empty when the datum held
  before was not None; when the slot already holds None, the assignment is the no-op of
  the identity test and the Result, its state included, is left as it was.
\<close>

theorem set_data_None:
  "fst (set_data flt PyNone self s) = None \<and>
   get_data (fst (snd (set_data flt PyNone self s))) = PyNone \<and>
   snd (snd (set_data flt PyNone self s)) = s \<and>
   (data_slot self \<noteq> PyNone \<longrightarrow> state (fst (snd (set_data flt PyNone self s))) = Empty) \<and>
   (data_slot self = PyNone \<longrightarrow> fst (snd (set_data flt PyNone self s)) = self)"
  by (simp add: set_data_def get_data_def)

text \<open>
  A Result constructed without arguments, whose state an executor has set to Allocated,
  holds None; assigning None to its data leaves the state Allocated, not Empty.
\<close>

theorem set_data_None_counterexample:
  "Result_init example_env 1 7 None NameNone = Inr fresh_result \<and>
   get_data (set_state Allocated fresh_result) = PyNone \<and>
   state (fst (snd (set_data Result_filter PyNone (set_state Allocated fresh_result) ()))) = Allocated \<and>
   state (fst (snd (set_data Result_filter PyNone (set_state Allocated fresh_result) ()))) \<noteq> Empty"
  using init_fresh by (simp add: set_data_def set_state_def fresh_result_def get_data_def)

theorem set_data_None_witness:
  "data_slot (fresh_result\<lparr>data_slot := PyRef 3, state := Computed\<rparr>) \<noteq> PyNone \<and>
   state (fst (snd (set_data Result_filter PyNone
             (fresh_result\<lparr>data_slot := PyRef 3, state := Computed\<rparr>) ()))) = Empty \<and>
   data_slot fresh_result = PyNone \<and>
   fst (snd (set_data Result_filter PyNone fresh_result ())) = fresh_result"
  using set_data_None [of Result_filter "fresh_result\<lparr>data_slot := PyRef 3, state := Computed\<rparr>" "()"]
        set_data_None [of Result_filter fresh_result "()"]
  by (simp add: fresh_result_def)

text \<open>
  Claim C4. A value that is not None and not the object held is stored as it is, with
  state Computed, when the filter is Result's own or any filter that raises
  AbstractFunctionError; when the filter returns a value, that value is stored, with
  state Computed. The hook state is what the filter left.
\<close>

theorem set_data_filtered:
  "data \<noteq> PyNone \<and> data \<noteq> data_slot self \<longrightarrow>
     set_data Result_filter data self s =
       (None, self\<lparr>data_slot := data, state := Computed\<rparr>, s) \<and>
     (fst (flt self s data) = Inl AbstractFunctionError \<longrightarrow>
        set_data flt data self s =
          (None, self\<lparr>data_slot := data, state := Computed\<rparr>, snd (flt self s data))) \<and>
     (fst (flt self s data) = Inr d \<longrightarrow>
        set_data flt data self s =
          (None, self\<lparr>data_slot := d, state := Computed\<rparr>, snd (flt self s data)))"
  by (auto simp: set_data_def Result_filter_def split: prod.splits sum.splits error.splits)

theorem set_data_filtered_witness:
  "PyRef 3 \<noteq> PyNone \<and> PyRef 3 \<noteq> data_slot fresh_result \<and>
   set_data Result_filter (PyRef 3) fresh_result () =
     (None, fresh_result\<lparr>data_slot := PyRef 3, state := Computed\<rparr>, ()) \<and>
   fst (counting_filter fresh_result 0 (PyRef 3)) = Inr (PyRef 103) \<and>
   set_data counting_filter (PyRef 3) fresh_result 0 =
     (None, fresh_result\<lparr>data_slot := PyRef 103, state := Computed\<rparr>, 1)"
  using set_data_filtered [where data = "PyRef 3" and self = fresh_result and s = "()"]
        set_data_filtered [where data = "PyRef 3" and self = fresh_result and s = "0::nat"
                             and flt = counting_filter and d = "PyRef 103"]
  by (simp add: fresh_result_def counting_filter_def)

text \<open>
  Claim C5. Assigning the object that the slot holds changes neither the datum nor the
  state nor any other slot, raises nothing, and leaves the hook state of every filter
  as it was: the filter is not called.
\<close>

theorem set_data_same_object:
  "set_data flt (data_slot self) self s = (None, self, s)"
  by (simp add: set_data_def)

subsection \<open>The role setter\<close>

lemma get_name_error:
  "get_name e self = Inl err \<Longrightarrow> err = ValueError ''list.index(x): x not in list''"
  by (auto simp: get_name_def split: if_splits option.splits)

text \<open>
  On a Result whose role is set, assigning the same role does nothing, and assigning
  another owner or another index raises and leaves the Result as it was.
\<close>

lemma set_role_same:
  "role_slot self = Some (owner, index) \<Longrightarrow> set_role e (owner, index) self = (None, self)"
  by (simp add: set_role_def)

lemma set_role_conflict:
  assumes "role_slot self = Some (owner, index)" "owner' \<noteq> owner \<or> index' \<noteq> index"
  shows "fst (set_role e (owner', index') self) \<noteq> None"
    and "snd (set_role e (owner', index') self) = self"
  using assms by (auto simp: set_role_def)

text \<open>When \<^verbatim>\<open>__str__\<close> returns, the exception is the ValueError of the source.\<close>

lemma set_role_messages:
  assumes "role_slot self = Some (owner, index)" "str_result e self = Inr s"
  shows "owner' \<noteq> owner \<Longrightarrow>
           set_role e (owner', index') self =
             (Some (ValueError (''Result '' @ s @ '' already has an owner.'')), self)"
    and "index' \<noteq> index \<Longrightarrow>
           set_role e (owner, index') self =
             (Some (ValueError (''Result '' @ s @ '' was already mapped to a different index.'')),
              self)"
  using assms by (simp_all add: set_role_def raise_fmt_def)

text \<open>When \<^verbatim>\<open>__str__\<close> raises, its exception is the one that leaves the setter.\<close>

lemma set_role_str_raises:
  assumes "role_slot self = Some (owner, index)" "str_result e self = Inl err"
    "owner' \<noteq> owner \<or> index' \<noteq> index"
  shows "set_role e (owner', index') self = (Some err, self)"
  using assms by (auto simp: set_role_def raise_fmt_def)

lemma set_role_bound_example:
  "set_role example_env (5, 2) bound_result = (None, bound_result) \<and>
   set_role example_env (6, 3) bound_result =
     (Some (ValueError ''Result Add.0 already has an owner.''), bound_result) \<and>
   set_role example_env (5, 3) bound_result =
     (Some (ValueError ''Result Add.0 was already mapped to a different index.''), bound_result)"
  by (simp add: bound_result_def set_role_def raise_fmt_def str_result_def get_name_def
        truthy_def example_env_def str_nat.simps digit_def)

text \<open>
  Claim C2, where the code misses it. A Result without a name whose role is (6, 0) and
  whose owner does not list it among its outputs: assigning a role with another owner,
  or with the same owner and another index, leaves the role as it was, but the
  exception is the ValueError of \<^verbatim>\<open>list.index\<close>, raised while the message is
  formatted, and not the ValueError that the setter was about to raise. A named Result
  in state Computed whose datum cannot be printed: the exception of the datum's
  \<^verbatim>\<open>__str__\<close> leaves the setter.
\<close>

theorem set_role_formatting_raises:
  "role_slot stray_result = Some (6, 0) \<and> name_slot stray_result = None \<and>
   op_outputs (ops example_env 6) = [] \<and>
   set_role example_env (5, 0) stray_result =
     (Some (ValueError ''list.index(x): x not in list''), stray_result) \<and>
   set_role example_env (6, 1) stray_result =
     (Some (ValueError ''list.index(x): x not in list''), stray_result) \<and>
   role_slot computed_result = Some (5, 2) \<and> state computed_result = Computed \<and>
   set_role unprintable_env (6, 2) computed_result =
     (Some (HostError ''__str__''), computed_result)"
  by (simp add: stray_result_def computed_result_def named_result_def bound_result_def
        set_role_def raise_fmt_def str_result_def get_name_def truthy_def example_env_def
        unprintable_env_def)

subsection \<open>The name getter\<close>

text \<open>\<open>str_nat\<close> writes the decimal digits of its argument.\<close>

lemma digit_value_digit: "d < 10 \<Longrightarrow> digit_value (digit d) = d"
proof -
  assume "d < 10"
  then have "d \<in> {0, 1, 2, 3, 4, 5, 6, 7, 8, 9}" by auto
  then show ?thesis by (auto simp: digit_value_def digit_def)
qed

lemma nat_of_digits_snoc:
  "nat_of_digits (cs @ [c]) = 10 * nat_of_digits cs + digit_value c"
  by (simp add: nat_of_digits_def)

lemma nat_of_digits_single: "nat_of_digits [c] = digit_value c"
  by (simp add: nat_of_digits_def)

lemma nat_of_digits_str_nat: "nat_of_digits (str_nat n) = n"
proof (induction n rule: str_nat.induct)
  case (1 n)
  show ?case
  proof (cases "n < 10")
    case True
    then have "str_nat n = [digit n]" by (subst str_nat.simps) simp
    with True show ?thesis by (simp only: nat_of_digits_single digit_value_digit)
  next
    case False
    then have e: "str_nat n = str_nat (n div 10) @ [digit (n mod 10)]"
      by (subst str_nat.simps) simp
    from False 1 have ih: "nat_of_digits (str_nat (n div 10)) = n div 10" by simp
    have "n mod 10 < 10" by simp
    then have d: "digit_value (digit (n mod 10)) = n mod 10" by (rule digit_value_digit)
    show ?thesis by (simp only: e nat_of_digits_snoc ih d) simp
  qed
qed

lemma str_nat_inj: "str_nat m = str_nat n \<Longrightarrow> m = n"
proof -
  assume "str_nat m = str_nat n"
  then have "nat_of_digits (str_nat m) = nat_of_digits (str_nat n)" by (rule arg_cong)
  then show "m = n" by (simp only: nat_of_digits_str_nat)
qed


lemma list_index_Some:
  "list_index xs x = Some i \<longleftrightarrow> i < length xs \<and> xs ! i = x \<and> (\<forall>j<i. xs ! j \<noteq> x)"
proof (induction xs arbitrary: i)
  case Nil
  then show ?case by simp
next
  case (Cons y ys)
  show ?case
  proof (cases "y = x")
    case True
    then show ?thesis by (cases i) auto
  next
    case False
    show ?thesis
    proof (cases i)
      case 0
      with False show ?thesis by (auto split: option.splits)
    next
      case (Suc k)
      have "(\<forall>j<Suc k. (y # ys) ! j \<noteq> x) \<longleftrightarrow> (\<forall>j<k. ys ! j \<noteq> x)"
        using False by (auto simp: less_Suc_eq_0_disj)
      with Suc False Cons.IH [of k] show ?thesis
        by (auto split: option.splits)
    qed
  qed
qed

text \<open>
  When the owner's outputs are distinct and hold this Result at the index of its role
  (what the assertion that \<^verbatim>\<open>__set_role\<close> leaves commented out would check), the
  derived name ends in that index.
\<close>

lemma get_name_at_role_index:
  assumes "\<not> truthy (name_slot self)" "role_slot self = Some (owner, idx)"
    "0 \<le> idx" "nat idx < length (op_outputs (ops e owner))"
    "op_outputs (ops e owner) ! nat idx = obj_id self" "distinct (op_outputs (ops e owner))"
  shows "get_name e self = Inr (Some (op_class (ops e owner) @ ''.'' @ str_nat (nat idx)))"
proof -
  let ?outs = "op_outputs (ops e owner)"
  have "\<forall>j<nat idx. ?outs ! j \<noteq> obj_id self"
  proof (intro allI impI notI)
    fix j
    assume j: "j < nat idx" and eq: "?outs ! j = obj_id self"
    from j assms(4) have "j < length ?outs" by simp
    with assms(4,6) have "?outs ! j = ?outs ! nat idx \<longleftrightarrow> j = nat idx"
      by (simp add: nth_eq_iff_index_eq)
    with eq assms(5) j show False by simp
  qed
  with assms(4,5) have "list_index ?outs (obj_id self) = Some (nat idx)"
    by (simp add: list_index_Some)
  with assms(1,2) show ?thesis by (simp add: get_name_def)
qed





subsection \<open>Identity\<close>

text \<open>
  Claim C7. Two Results are equal exactly when they are the same instance, and unequal
  exactly when they are not: two instances with the same data and the same role are not
  equal.
\<close>

theorem eq_is_identity:
  "(eq_result a b \<longleftrightarrow> obj_id a = obj_id b) \<and>
   (ne_result a b \<longleftrightarrow> \<not> eq_result a b) \<and>
   (cmp_result a b = 0 \<longleftrightarrow> eq_result a b) \<and>
   (obj_id a \<noteq> obj_id b \<and> data_slot a = data_slot b \<and> role_slot a = role_slot b \<longrightarrow>
      \<not> eq_result a b \<and> ne_result a b)"
  by (simp add: eq_result_def ne_result_def cmp_result_def)

theorem eq_is_identity_witness:
  "Result_init example_env 1 7 None NameNone = Inr fresh_result \<and>
   Result_init example_env 2 7 None NameNone = Inr other_result \<and>
   obj_id fresh_result \<noteq> obj_id other_result \<and>
   data_slot fresh_result = data_slot other_result \<and>
   role_slot fresh_result = role_slot other_result \<and>
   hash_result fresh_result = hash_result other_result \<and>
   \<not> eq_result fresh_result other_result \<and> ne_result fresh_result other_result \<and>
   eq_result fresh_result fresh_result"
  using eq_is_identity [of fresh_result other_result] eq_is_identity [of fresh_result fresh_result]
  by (simp add: fresh_result_def other_result_def Result_init_def set_name_def hash_result_def)

subsection \<open>The hash\<close>

lemma set_role_hash: "hash_id (snd (set_role e r self)) = hash_id self"
  by (simp add: set_role_def split: option.splits)

lemma set_name_hash: "hash_id (snd (set_name n self)) = hash_id self"
  by (simp add: set_name_def split: name_arg.splits)

lemma set_data_hash: "hash_id (fst (snd (set_data flt d self s))) = hash_id self"
  by (simp add: set_data_def split: prod.splits sum.splits error.splits)

lemma apply_action_hash: "hash_id (fst (apply_action e flt a st)) = hash_id (fst st)"
  by (cases a; cases st) (simp_all add: set_role_hash set_name_hash set_data_hash set_state_def)

lemma apply_actions_hash: "hash_id (fst (apply_actions e flt acts st)) = hash_id (fst st)"
  by (induction acts arbitrary: st) (simp_all add: apply_action_hash)

lemma Result_init_hash: "Result_init e i h role name = Inr self \<Longrightarrow> hash_id self = h"
  by (auto simp: Result_init_eq split: name_arg.splits)

text \<open>
  Claim C10. The hash of a Result is the value drawn at construction, whatever role and
  name were given, and no assignment of role, data, state or name, alone or in any
  sequence, failing or not, changes it.
\<close>

theorem hash_fixed:
  "(Result_init e i h role name = Inr self \<longrightarrow> hash_result self = h) \<and>
   hash_result (snd (set_role e r self)) = hash_result self \<and>
   hash_result (fst (snd (set_data flt d self s))) = hash_result self \<and>
   hash_result (set_state st self) = hash_result self \<and>
   hash_result (snd (set_name n self)) = hash_result self \<and>
   hash_result (fst (apply_actions e flt acts (self, s))) = hash_result self"
  using apply_actions_hash [of e flt acts "(self, s)"]
  by (auto simp: hash_result_def set_role_hash set_name_hash set_data_hash set_state_def
        dest: Result_init_hash)

theorem hash_fixed_witness:
  "Result_init example_env 1 7 None NameNone = Inr fresh_result \<and>
   hash_result fresh_result = 7 \<and>
   hash_result (fst (apply_actions example_env counting_filter
      [SetRole (5, 2), SetData (PyRef 3), SetName (NameStr ''x''), SetState Allocated,
       SetData PyNone, SetRole (6, 0), SetName NameOther] (fresh_result, 0))) = 7"
  using hash_fixed [where e = example_env and i = 1 and h = 7 and role = None and name = NameNone
                      and self = fresh_result and flt = counting_filter and s = "0::nat" and acts =
      "[SetRole (5, 2), SetData (PyRef 3), SetName (NameStr ''x''), SetState Allocated,
        SetData PyNone, SetRole (6, 0), SetName NameOther]"]
    init_fresh
  by simp

subsection \<open>Copying\<close>

lemma set_data_new:
  "set_data Result_filter d
     \<lparr>obj_id = i, role_slot = None, data_slot = PyNone, state = Empty, name_slot = n, hash_id = g\<rparr> () =
   (None, \<lparr>obj_id = i, role_slot = None, data_slot = d,
            state = (if d = PyNone then Empty else Computed), name_slot = n, hash_id = g\<rparr>, ())"
  by (simp add: set_data_def Result_filter_def)

text \<open>
  What \<^verbatim>\<open>PythonResult.__copy__\<close> does, for every \<^verbatim>\<open>copy.copy\<close>: an exception of
  the name getter ends it before anything is copied; an exception of \<^verbatim>\<open>copy.copy\<close>
  ends it; otherwise the new Result has role None, the name read, and the copy as its
  datum.
\<close>

lemma PythonResult_copy_eq:
  "PythonResult_copy e cp h new_id hg self =
     (case get_name e self of
        Inl err \<Rightarrow> (Inl err, h)
      | Inr n \<Rightarrow>
          (case cp h (data_slot self) of
             (Inl err, h') \<Rightarrow> (Inl err, h')
           | (Inr d, h') \<Rightarrow>
               (Inr \<lparr>obj_id = new_id, role_slot = None, data_slot = d,
                      state = (if d = PyNone then Empty else Computed),
                      name_slot = n, hash_id = hg\<rparr>, h')))"
proof (cases "get_name e self")
  case (Inl err)
  then show ?thesis by (simp add: PythonResult_copy_def)
next
  case (Inr n)
  obtain r h' where c: "cp h (data_slot self) = (r, h')"
    by (cases "cp h (data_slot self)")
  show ?thesis
    using Inr c
    by (cases n; cases r)
      (simp_all add: PythonResult_copy_def Result_init_eq name_of_getter_def get_data_def
        set_data_new)
qed

lemma PythonResult_copy_new:
  assumes "PythonResult_copy e cp h new_id hg self = (Inr c, h')" "new_id \<noteq> obj_id self"
  shows "ne_result c self" and "role_slot c = None"
  using assms
  by (auto simp: PythonResult_copy_eq ne_result_def split: sum.splits prod.splits)

lemma Result_copy_unsupported: "Result_copy self = Inl AbstractFunctionError"
  by (simp add: Result_copy_def)

text \<open>
  Claim C8, where the code misses it. A PythonResult without a name, whose role is
  (6, 0) and whose owner does not list it among its outputs: \<^verbatim>\<open>__copy__\<close> raises the
  ValueError of \<^verbatim>\<open>list.index\<close> while it reads \<^verbatim>\<open>self.name\<close> for the constructor,
  whatever \<^verbatim>\<open>copy.copy\<close> would do, and returns no Result; the host state is as it was.
\<close>

theorem PythonResult_copy_raises:
  "role_slot stray_result = Some (6, 0) \<and> name_slot stray_result = None \<and>
   op_outputs (ops example_env 6) = [] \<and>
   PythonResult_copy example_env cp h 9 8 stray_result =
     (Inl (ValueError ''list.index(x): x not in list''), h)"
  by (simp add: PythonResult_copy_eq get_name_def stray_result_def bound_result_def
        example_env_def truthy_def)

subsection \<open>Reference counts of the emitted code\<close>

lemma c_declare_text: "PythonResult_c_declare self name sub = Inr (emit (declare_stmts name))"
  by (simp add: PythonResult_c_declare_def emit_def declare_stmts_def)

lemma c_extract_text: "PythonResult_c_extract self name sub = Inr (emit (extract_stmts name))"
  by (simp add: PythonResult_c_extract_def emit_def extract_stmts_def py_var_def)

lemma c_cleanup_text: "PythonResult_c_cleanup self name sub = Inr (emit (cleanup_stmts name))"
  by (simp add: PythonResult_c_cleanup_def emit_def cleanup_stmts_def)

lemma c_sync_text: "PythonResult_c_sync self name sub = Inr (emit (sync_stmts name))"
  by (simp add: PythonResult_c_sync_def emit_def sync_stmts_def py_var_def)

lemma exec_append:
  "exec (cs @ ds) h = (case exec cs h of None \<Rightarrow> None | Some h' \<Rightarrow> exec ds h')"
  by (induction cs arbitrary: h) (auto split: option.splits)

lemma py_var_neq [simp]: "py_var name \<noteq> name" "name \<noteq> py_var name"
proof -
  have "length (py_var name) \<noteq> length name" by (simp add: py_var_def)
  then show "py_var name \<noteq> name" "name \<noteq> py_var name" by auto
qed

lemma exec_declare_extract:
  assumes "vars h (py_var name) = Some (Ptr (Some v))" "0 < refcnt h v"
  shows "exec (declare_stmts name @ extract_stmts name) h =
           Some (h\<lparr>refcnt := (refcnt h)(v := refcnt h v + 1),
                   vars := (vars h)(name \<mapsto> Ptr (Some v))\<rparr>)"
  using assms by (simp add: declare_stmts_def extract_stmts_def incref_def)

lemma exec_extract:
  assumes "vars h (py_var name) = Some (Ptr (Some v))" "0 < refcnt h v" "vars h name \<noteq> None"
  shows "exec (extract_stmts name) h =
           Some (h\<lparr>refcnt := (refcnt h)(v := refcnt h v + 1),
                   vars := (vars h)(name \<mapsto> Ptr (Some v))\<rparr>)"
  using assms by (auto simp: extract_stmts_def incref_def)

lemma exec_cleanup:
  assumes "vars h name = Some (Ptr (Some v))" "0 < refcnt h v"
  shows "exec (cleanup_stmts name) h = Some (h\<lparr>refcnt := (refcnt h)(v := refcnt h v - 1)\<rparr>)"
  using assms by (simp add: cleanup_stmts_def decref_def)

lemma exec_sync:
  assumes "vars h (py_var name) = Some (Ptr (Some old))" "vars h name = Some (Ptr (Some new))"
    "0 < refcnt h old" "0 < refcnt h new" "old = new \<longrightarrow> 1 < refcnt h old"
  shows "exec (sync_stmts name) h =
           Some (h\<lparr>refcnt := ((refcnt h)(old := refcnt h old - 1))
                              (new := ((refcnt h)(old := refcnt h old - 1)) new + 1),
                   vars := (vars h)(py_var name \<mapsto> Ptr (Some new))\<rparr>)"
  using assms by (auto simp: sync_stmts_def decref_def incref_def)

lemma exec_protocol:
  assumes py: "vars h (py_var name) = Some (Ptr (Some v))" and live: "0 < refcnt h v"
  shows "exec (declare_stmts name @ extract_stmts name) h =
           Some (h\<lparr>refcnt := (refcnt h)(v := refcnt h v + 1),
                   vars := (vars h)(name \<mapsto> Ptr (Some v))\<rparr>)"
    and "exec (declare_stmts name @ extract_stmts name @ cleanup_stmts name) h =
           Some (h\<lparr>vars := (vars h)(name \<mapsto> Ptr (Some v))\<rparr>)"
    and "exec (declare_stmts name @ extract_stmts name @ sync_stmts name) h =
           Some (h\<lparr>refcnt := (refcnt h)(v := refcnt h v + 1),
                   vars := (vars h)(name \<mapsto> Ptr (Some v))\<rparr>)"
    and "exec (declare_stmts name @ extract_stmts name @ sync_stmts name @ cleanup_stmts name) h =
           Some (h\<lparr>vars := (vars h)(name \<mapsto> Ptr (Some v))\<rparr>)"
proof -
  let ?h1 = "h\<lparr>refcnt := (refcnt h)(v := refcnt h v + 1),
               vars := (vars h)(name \<mapsto> Ptr (Some v))\<rparr>"
  let ?h0 = "h\<lparr>vars := (vars h)(name \<mapsto> Ptr (Some v))\<rparr>"
  show ex: "exec (declare_stmts name @ extract_stmts name) h = Some ?h1"
    using py live by (rule exec_declare_extract)
  have cl: "exec (cleanup_stmts name) ?h1 = Some ?h0"
    by (simp add: cleanup_stmts_def decref_def)
  have upd: "(vars h)(name \<mapsto> Ptr (Some v), py_var name \<mapsto> Ptr (Some v)) =
             (vars h)(name \<mapsto> Ptr (Some v))"
    using py by (auto simp: fun_eq_iff)
  have sy: "exec (sync_stmts name) ?h1 = Some ?h1"
    using py live by (simp add: sync_stmts_def decref_def incref_def upd)
  show "exec (declare_stmts name @ extract_stmts name @ cleanup_stmts name) h = Some ?h0"
    using ex cl exec_append [of "declare_stmts name @ extract_stmts name" "cleanup_stmts name" h]
    by simp
  show t2: "exec (declare_stmts name @ extract_stmts name @ sync_stmts name) h = Some ?h1"
    using ex sy exec_append [of "declare_stmts name @ extract_stmts name" "sync_stmts name" h]
    by simp
  show "exec (declare_stmts name @ extract_stmts name @ sync_stmts name @ cleanup_stmts name) h
          = Some ?h0"
    using t2 cl
      exec_append [of "declare_stmts name @ extract_stmts name @ sync_stmts name"
                      "cleanup_stmts name" h]
    by simp
qed

text \<open>
  Claim C9, as the code has it. The four texts are the four statement lists. With
  \<^verbatim>\<open>py_<name>\<close> bound to a live object v: declare and extract add exactly one
  reference to v and leave every other count and the binding as they were; cleanup
  after extract takes that one reference again, so that every count is what it was
  before extract, and does not assign \<^verbatim>\<open>py_<name>\<close>; sync after extract leaves
  \<^verbatim>\<open>py_<name>\<close> bound to v and nothing released twice, with the count of v one
  above what it was, the reference that the variable \<^verbatim>\<open><name>\<close> holds; cleanup
  after sync takes that one and every count is what it was at the start.
\<close>

theorem PythonResult_refcounts:
  "vars h (py_var name) = Some (Ptr (Some v)) \<and> 0 < refcnt h v \<longrightarrow>
     PythonResult_c_declare self name sub = Inr (emit (declare_stmts name)) \<and>
     PythonResult_c_extract self name sub = Inr (emit (extract_stmts name)) \<and>
     PythonResult_c_cleanup self name sub = Inr (emit (cleanup_stmts name)) \<and>
     PythonResult_c_sync self name sub = Inr (emit (sync_stmts name)) \<and>
     exec (declare_stmts name @ extract_stmts name) h =
       Some (h\<lparr>refcnt := (refcnt h)(v := refcnt h v + 1),
               vars := (vars h)(name \<mapsto> Ptr (Some v))\<rparr>) \<and>
     exec (declare_stmts name @ extract_stmts name @ cleanup_stmts name) h =
       Some (h\<lparr>vars := (vars h)(name \<mapsto> Ptr (Some v))\<rparr>) \<and>
     exec (declare_stmts name @ extract_stmts name @ sync_stmts name) h =
       Some (h\<lparr>refcnt := (refcnt h)(v := refcnt h v + 1),
               vars := (vars h)(name \<mapsto> Ptr (Some v))\<rparr>) \<and>
     exec (declare_stmts name @ extract_stmts name @ sync_stmts name @ cleanup_stmts name) h =
       Some (h\<lparr>vars := (vars h)(name \<mapsto> Ptr (Some v))\<rparr>)"
  by (simp add: exec_protocol c_declare_text c_extract_text c_cleanup_text c_sync_text)

text \<open>
  With \<^verbatim>\<open>py_x\<close> the one reference to object 0, declare, extract and sync leave
  \<^verbatim>\<open>py_x\<close> bound to object 0 and its count at 2, not 1.
\<close>

theorem PythonResult_refcounts_counterexample:
  "refcnt example_host 0 = 1 \<and>
   vars example_host (py_var ''x'') = Some (Ptr (Some 0)) \<and>
   exec (declare_stmts ''x'' @ extract_stmts ''x'' @ sync_stmts ''x'') example_host =
     Some (example_host\<lparr>refcnt := (refcnt example_host)(0 := 2),
                         vars := (vars example_host)(''x'' \<mapsto> Ptr (Some 0))\<rparr>) \<and>
   ((refcnt example_host)(0 := 2)) 0 \<noteq> refcnt example_host 0 \<and>
   ((vars example_host)(''x'' \<mapsto> Ptr (Some 0))) (py_var ''x'') = Some (Ptr (Some 0))"
  using exec_protocol(3) [of example_host "''x''" 0]
  by (simp add: example_host_def py_var_def numeral_2_eq_2)

theorem PythonResult_refcounts_witness:
  "vars example_host (py_var ''x'') = Some (Ptr (Some 0)) \<and> 0 < refcnt example_host 0 \<and>
   exec (declare_stmts ''x'' @ extract_stmts ''x'') example_host =
     Some (example_host\<lparr>refcnt := (refcnt example_host)(0 := 2),
                         vars := (vars example_host)(''x'' \<mapsto> Ptr (Some 0))\<rparr>) \<and>
   exec (declare_stmts ''x'' @ extract_stmts ''x'' @ cleanup_stmts ''x'') example_host =
     Some (example_host\<lparr>vars := (vars example_host)(''x'' \<mapsto> Ptr (Some 0))\<rparr>) \<and>
   exec (declare_stmts ''x'' @ extract_stmts ''x'' @ sync_stmts ''x'' @ cleanup_stmts ''x'')
     example_host =
     Some (example_host\<lparr>vars := (vars example_host)(''x'' \<mapsto> Ptr (Some 0))\<rparr>)"
  using PythonResult_refcounts [where h = example_host and name = "''x''" and v = 0
                                  and self = fresh_result and sub = "()"]
  by (simp add: example_host_def py_var_def numeral_2_eq_2)

subsection \<open>The abstract methods\<close>

text \<open>
  Claim C3 at \<^verbatim>\<open>same_properties\<close>: on a Result of the base class the call raises
  NameError, not AbstractFunctionError.
\<close>

theorem same_properties_NameError:
  "Result_same_properties self other = Inl (NameError ''global name 'AbstractFunction' is not defined'') \<and>
   Result_same_properties self other \<noteq> Inl AbstractFunctionError"
  by (simp add: Result_same_properties_def)

text \<open>The other abstract methods of the base class raise AbstractFunctionError.\<close>

lemma Result_hooks_unsupported:
  "Result_c_literal self = Inl AbstractFunctionError \<and>
   Result_c_declare self name sub = Inl AbstractFunctionError \<and>
   Result_c_extract self name sub = Inl AbstractFunctionError \<and>
   Result_c_cleanup self name sub = Inl AbstractFunctionError \<and>
   Result_c_sync self name sub = Inl AbstractFunctionError \<and>
   Result_c_compile_args self = Inl AbstractFunctionError \<and>
   Result_c_headers self = Inl AbstractFunctionError \<and>
   Result_c_libraries self = Inl AbstractFunctionError \<and>
   Result_c_support_code self = Inl AbstractFunctionError \<and>
   Result_copy self = Inl AbstractFunctionError \<and>
   Result_filter self s data = (Inl AbstractFunctionError, s)"
  by (simp add: Result_c_literal_def Result_c_declare_def Result_c_extract_def
        Result_c_cleanup_def Result_c_sync_def Result_c_compile_args_def Result_c_headers_def
        Result_c_libraries_def Result_c_support_code_def Result_copy_def Result_filter_def)

end
